theory Spec2Isabelle
  imports Main "HOL-Library.Sublist" "HOL-Library.Word"
begin

section \<open>The Marches and Music pages\<close>

text \<open>
  The repository holds two page components, \<^verbatim>\<open>MarchesPage\<close>
  (\<^verbatim>\<open>client/src/pages/marches.tsx\<close>) and \<^verbatim>\<open>MusicUploadPage\<close> (the second source
  file). Their handlers are the same text up to the category tag, the directory of the
  favorite videos, the names of the draft name (\<^verbatim>\<open>marchName\<close> / \<^verbatim>\<open>musicName\<close>) and of
  the favorites (\<^verbatim>\<open>favoriteMarches\<close> / \<^verbatim>\<open>favoriteMusics\<close>), and the call site of
  \<^verbatim>\<open>handlePlayFavorite\<close>. The model has one definition per handler, with
  the page as a parameter wherever the two files differ.

  A handler of the component becomes a function from the page state to the page state.
  What a handler does to the outside (a toast, a \<^verbatim>\<open>fetch\<close>, a call on a media element) is
  recorded in the state.
\<close>

datatype page = Marches | Music

subsection \<open>Strings\<close>

text \<open>
  A JavaScript string is the list of its UTF-16 code units. \<open>js\<close> writes the ASCII
  literals of the source as such lists.
\<close>

type_synonym code_unit = "16 word"

type_synonym js_string = "code_unit list"

definition js :: "string \<Rightarrow> js_string" where
  "js cs = map of_char cs"

subsection \<open>Data\<close>

text \<open>The browser's \<^verbatim>\<open>File\<close>: the handlers read \<^verbatim>\<open>name\<close> and \<^verbatim>\<open>type\<close> only.\<close>

record js_file =
  file_name :: js_string
  file_type :: js_string

text \<open>\<^verbatim>\<open>MusicFile\<close> of \<^verbatim>\<open>@shared/schema\<close>, with the fields the pages read.\<close>

record music_file =
  mf_id :: js_string
  mf_name :: js_string
  mf_originalName :: js_string
  mf_filename :: js_string

text \<open>
  Modelled from the spec: \<^verbatim>\<open>FavoriteMarch\<close> and \<^verbatim>\<open>FavoriteMusic\<close> are declared in
  \<^verbatim>\<open>@shared/schema\<close>, which is not among the sources. The spec's data model gives a
  favorite track an identifier, a title, an optional artist, a description and an optional
  filename; \<open>None\<close> is JavaScript's \<^verbatim>\<open>undefined\<close>.
\<close>

record favorite =
  fav_id :: js_string
  fav_title :: js_string
  fav_artist :: "js_string option"
  fav_description :: js_string
  fav_filename :: "js_string option"

text \<open>An \<^verbatim>\<open>HTMLMediaElement\<close>, as far as the handlers touch it.\<close>

record media_element =
  src :: js_string
  paused :: bool

definition play :: "media_element \<Rightarrow> media_element" where
  "play el = el\<lparr>paused := False\<rparr>"

definition pause :: "media_element \<Rightarrow> media_element" where
  "pause el = el\<lparr>paused := True\<rparr>"

text \<open>
  The toasts. The titles are the three the source uses (\<^verbatim>\<open>Hata\<close> error, \<^verbatim>\<open>Basarili\<close>
  success, \<^verbatim>\<open>Bilgi\<close> information); the descriptions are named by what they say, with the
  page where the two files word them differently, and with the interpolated filename.
\<close>

datatype toast_title = Hata | Basarili | Bilgi

datatype toast_variant = Default_variant | Destructive

datatype toast_description =
    File_uploaded page
  | File_not_uploaded
  | File_deleted page
  | File_not_deleted
  | Only_mp3_mp4_accepted
  | Select_file_and_name
  | Needs_real_file js_string

record toast =
  t_title :: toast_title
  t_description :: toast_description
  t_variant :: toast_variant

text \<open>Requests: the entries of a \<^verbatim>\<open>FormData\<close> in order, and a call of \<^verbatim>\<open>fetch\<close>.\<close>

datatype form_value = Form_file js_file | Form_string js_string

datatype http_method = GET | POST | DELETE

record request =
  req_method :: http_method
  req_url :: js_string
  req_body :: "(js_string \<times> form_value) list option"

text \<open>
  What a \<^verbatim>\<open>fetch\<close> comes back with: a rejected promise (network error), or a response
  with its status and whether its body parses as JSON.
\<close>

datatype fetch_result = Network_error | Response nat bool

definition ok :: "nat \<Rightarrow> bool" where
  "ok status \<longleftrightarrow> 200 \<le> status \<and> status \<le> 299"

datatype js_error = TypeError | Error js_string | SyntaxError

text \<open>A part of a query key: a string, or an object of string fields.\<close>

datatype key_part = Key_string js_string | Key_object "(js_string \<times> js_string) list"

text \<open>
  The state of one mounted page.
  \<^item> The \<^verbatim>\<open>useState\<close> cells. The cell \<^verbatim>\<open>uploading\<close> is left out: no handler reads or
    writes it.
  \<^item> The three refs: \<open>None\<close> is a ref whose \<^verbatim>\<open>current\<close> is \<^verbatim>\<open>null\<close>; the file input is
    its \<^verbatim>\<open>value\<close>.
  \<^item> The two list queries, each with its data (\<open>None\<close> is \<^verbatim>\<open>undefined\<close>: nothing has
    arrived yet), whether a fetch of it is in flight, and whether it is marked
    invalidated.
  \<^item> \<^verbatim>\<open>isPending\<close> of the two mutations.
  \<^item> The log of the toasts shown and of the requests sent.
\<close>

record page_state =
  selectedFile :: "js_file option"
  marchName :: js_string
  playingAudio :: "js_string option"
  playingVideo :: "js_string option"
  fileInputRef :: "js_string option"
  audioRef :: "media_element option"
  videoRef :: "media_element option"
  uploadedData :: "music_file list option"
  uploadedFetching :: bool
  uploadedStale :: bool
  favoritesData :: "favorite list option"
  favoritesFetching :: bool
  favoritesStale :: bool
  uploadPending :: bool
  deletePending :: bool
  toasts :: "toast list"
  requests :: "request list"

text \<open>
  The lists on display: \<^verbatim>\<open>const { data: uploadedFiles = [] }\<close> and
  \<^verbatim>\<open>const { data: favoriteMarches = [] }\<close>.
\<close>

definition uploadedFiles :: "page_state \<Rightarrow> music_file list" where
  "uploadedFiles s = (case uploadedData s of None \<Rightarrow> [] | Some fs \<Rightarrow> fs)"

definition favoriteMarches :: "page_state \<Rightarrow> favorite list" where
  "favoriteMarches s = (case favoritesData s of None \<Rightarrow> [] | Some fs \<Rightarrow> fs)"

definition toast :: "toast \<Rightarrow> page_state \<Rightarrow> page_state" where
  "toast t s = s\<lparr>toasts := toasts s @ [t]\<rparr>"

definition fetch :: "request \<Rightarrow> page_state \<Rightarrow> page_state" where
  "fetch r s = s\<lparr>requests := requests s @ [r]\<rparr>"

subsection \<open>What differs between the two pages\<close>

definition type_tag :: "page \<Rightarrow> js_string" where
  "type_tag p = (case p of Marches \<Rightarrow> js ''march'' | Music \<Rightarrow> js ''music'')"

definition videos_dir :: "page \<Rightarrow> js_string" where
  "videos_dir p =
     (case p of Marches \<Rightarrow> js ''/videos/marches/'' | Music \<Rightarrow> js ''/videos/music/'')"

definition uploaded_queryKey :: "page \<Rightarrow> key_part list" where
  "uploaded_queryKey p =
     [Key_string (js ''/api/music-files''), Key_object [(js ''type'', type_tag p)]]"

definition uploaded_url :: "page \<Rightarrow> js_string" where
  "uploaded_url p = js ''/api/music-files?type='' @ type_tag p"

definition favorites_queryKey :: "page \<Rightarrow> key_part list" where
  "favorites_queryKey p =
     (case p of Marches \<Rightarrow> [Key_string (js ''/api/favorite-marches'')]
              | Music \<Rightarrow> [Key_string (js ''/api/favorite-musics'')])"

text \<open>
  Modelled from the spec: the favorites query has no \<^verbatim>\<open>queryFn\<close> of its own; the default
  one belongs to the query client, which is not among the sources. The spec lists the
  endpoints \<^verbatim>\<open>GET /api/favorite-marches\<close> and \<^verbatim>\<open>GET /api/favorite-musics\<close>.
\<close>

definition favorites_url :: "page \<Rightarrow> js_string" where
  "favorites_url p =
     (case p of Marches \<Rightarrow> js ''/api/favorite-marches''
              | Music \<Rightarrow> js ''/api/favorite-musics'')"

subsection \<open>The query client\<close>

text \<open>
  The query client is the library's (TanStack Query; \<^verbatim>\<open>isPending\<close> is its version 5).
  A refetch of a mounted query sends the query's request, with two cases when a fetch of
  the query is already in flight: if the query has data, that fetch is cancelled and a
  new one is sent; if it has no data yet (its first fetch), the fetch in flight is joined
  and nothing is sent.
\<close>

definition refetch_uploaded :: "page \<Rightarrow> page_state \<Rightarrow> page_state" where
  "refetch_uploaded p s =
     (if uploadedFetching s \<and> uploadedData s = None then s
      else fetch \<lparr>req_method = GET, req_url = uploaded_url p, req_body = None\<rparr>
             (s\<lparr>uploadedFetching := True\<rparr>))"

definition refetch_favorites :: "page \<Rightarrow> page_state \<Rightarrow> page_state" where
  "refetch_favorites p s =
     (if favoritesFetching s \<and> favoritesData s = None then s
      else fetch \<lparr>req_method = GET, req_url = favorites_url p, req_body = None\<rparr>
             (s\<lparr>favoritesFetching := True\<rparr>))"

text \<open>
  \<^verbatim>\<open>queryClient.invalidateQueries({ queryKey })\<close> matches every query whose key starts
  with the given key, marks it invalidated and, the query being mounted, refetches it.
\<close>

definition invalidateQueries :: "page \<Rightarrow> key_part list \<Rightarrow> page_state \<Rightarrow> page_state" where
  "invalidateQueries p k s =
     (let s1 = (if prefix k (uploaded_queryKey p)
                then refetch_uploaded p (s\<lparr>uploadedStale := True\<rparr>)
                else s)
      in if prefix k (favorites_queryKey p)
         then refetch_favorites p (s1\<lparr>favoritesStale := True\<rparr>)
         else s1)"

text \<open>
  The fetch of a list query settles: with a list, which is then the data of the query,
  and the query is no longer invalidated; or with a failure, which leaves the data.
\<close>

definition uploadedQuery_settle :: "music_file list \<Rightarrow> page_state \<Rightarrow> page_state" where
  "uploadedQuery_settle fs s =
     s\<lparr>uploadedData := Some fs, uploadedFetching := False, uploadedStale := False\<rparr>"

definition uploadedQuery_fail :: "page_state \<Rightarrow> page_state" where
  "uploadedQuery_fail s = s\<lparr>uploadedFetching := False\<rparr>"

definition favoritesQuery_settle :: "favorite list \<Rightarrow> page_state \<Rightarrow> page_state" where
  "favoritesQuery_settle fs s =
     s\<lparr>favoritesData := Some fs, favoritesFetching := False, favoritesStale := False\<rparr>"

definition favoritesQuery_fail :: "page_state \<Rightarrow> page_state" where
  "favoritesQuery_fail s = s\<lparr>favoritesFetching := False\<rparr>"

text \<open>
  The page after its first commit: the state cells at their initial values, the refs
  attached to the three elements the component always renders, both queries without data
  and with their first fetch in flight, no mutation pending.
\<close>

definition mount :: "page \<Rightarrow> page_state" where
  "mount p =
     \<lparr>selectedFile = None, marchName = [], playingAudio = None, playingVideo = None,
      fileInputRef = Some [],
      audioRef = Some \<lparr>src = [], paused = True\<rparr>,
      videoRef = Some \<lparr>src = [], paused = True\<rparr>,
      uploadedData = None, uploadedFetching = True, uploadedStale = False,
      favoritesData = None, favoritesFetching = True, favoritesStale = False,
      uploadPending = False, deletePending = False,
      toasts = [],
      requests = [\<lparr>req_method = GET, req_url = uploaded_url p, req_body = None\<rparr>,
                  \<lparr>req_method = GET, req_url = favorites_url p, req_body = None\<rparr>]\<rparr>"

subsection \<open>Selecting a file\<close>

text \<open>
  \<^verbatim>\<open>name.replace(/\.[^/.]+$/, "")\<close>. \<open>ext_char\<close> is the class \<^verbatim>\<open>[^/.]\<close>. \<open>match_here\<close>
  tries the pattern at the head of the rest of the input: a dot, then the greedy
  \<^verbatim>\<open>[^/.]+\<close> takes the longest run of the class, then \<^verbatim>\<open>$\<close> wants the end of the input
  (giving back characters of the run leaves a non-empty rest, so backtracking cannot
  help). \<open>replace_ext\<close> tries the start positions from the left and replaces the first
  match, which reaches to the end, by the empty string; without a match the string
  stays.
\<close>

definition ext_char :: "code_unit \<Rightarrow> bool" where
  "ext_char c \<longleftrightarrow> c \<noteq> of_char (CHR ''/'') \<and> c \<noteq> of_char (CHR ''.'')"

fun match_here :: "js_string \<Rightarrow> bool" where
  "match_here [] = False"
| "match_here (c # cs) =
     (c = of_char (CHR ''.'') \<and> takeWhile ext_char cs \<noteq> [] \<and> dropWhile ext_char cs = [])"

fun replace_ext :: "js_string \<Rightarrow> js_string" where
  "replace_ext [] = []"
| "replace_ext (c # cs) = (if match_here (c # cs) then [] else c # replace_ext cs)"

definition allowedTypes :: "js_string list" where
  "allowedTypes = [js ''audio/mpeg'', js ''audio/mp3'', js ''audio/mp4'', js ''video/mp4'']"

text \<open>
  The argument is \<^verbatim>\<open>event.target.files\<close>: \<open>None\<close> for \<^verbatim>\<open>null\<close>, else the list of files.
  \<^verbatim>\<open>files?.[0]\<close> is \<^verbatim>\<open>undefined\<close> for \<^verbatim>\<open>null\<close> and for the empty list.
\<close>

definition first_file :: "js_file list option \<Rightarrow> js_file option" where
  "first_file files = (case files of None \<Rightarrow> None | Some [] \<Rightarrow> None | Some (f # _) \<Rightarrow> Some f)"

definition handleFileSelect :: "js_file list option \<Rightarrow> page_state \<Rightarrow> page_state" where
  "handleFileSelect files s =
     (case first_file files of
        None \<Rightarrow> s
      | Some f \<Rightarrow>
          if file_type f \<in> set allowedTypes
          then s\<lparr>selectedFile := Some f, marchName := replace_ext (file_name f)\<rparr>
          else toast \<lparr>t_title = Hata, t_description = Only_mp3_mp4_accepted,
                      t_variant = Destructive\<rparr> s)"

text \<open>The name field: \<^verbatim>\<open>onChange={(e) => setMarchName(e.target.value)}\<close>.\<close>

definition setMarchName :: "js_string \<Rightarrow> page_state \<Rightarrow> page_state" where
  "setMarchName v s = s\<lparr>marchName := v\<rparr>"

subsection \<open>Uploading\<close>

text \<open>
  \<^verbatim>\<open>String.prototype.trim\<close> removes white space and line terminators from both ends:
  tab, line feed, vertical tab, form feed, carriage return, space, no-break space,
  U+1680, U+2000 to U+200A, U+2028, U+2029, U+202F, U+205F, U+3000 and U+FEFF.
\<close>

definition js_whitespace :: "code_unit \<Rightarrow> bool" where
  "js_whitespace c \<longleftrightarrow>
     c \<in> set [0x0009, 0x000A, 0x000B, 0x000C, 0x000D, 0x0020, 0x00A0, 0x1680,
              0x2028, 0x2029, 0x202F, 0x205F, 0x3000, 0xFEFF]
     \<or> (0x2000 \<le> c \<and> c \<le> 0x200A)"

definition trim :: "js_string \<Rightarrow> js_string" where
  "trim n = rev (dropWhile js_whitespace (rev (dropWhile js_whitespace n)))"

text \<open>
  \<^verbatim>\<open>uploadMutation\<close>. \<open>uploadMutation_mutate\<close> is the call of \<^verbatim>\<open>mutate\<close>: the mutation
  is pending, and \<^verbatim>\<open>mutationFn\<close> runs up to its \<^verbatim>\<open>await fetch\<close>.
  \<open>uploadMutation_mutationFn\<close> is the rest of \<^verbatim>\<open>mutationFn\<close>, given what the \<^verbatim>\<open>fetch\<close>
  came back with: it throws when the \<^verbatim>\<open>fetch\<close> rejected, when the response is not
  \<^verbatim>\<open>ok\<close>, and when \<^verbatim>\<open>response.json()\<close> rejects. \<open>uploadMutation_settle\<close> then runs
  \<^verbatim>\<open>onSuccess\<close> or \<^verbatim>\<open>onError\<close>, and the mutation is no longer pending.
\<close>

definition uploadMutation_mutate ::
  "(js_string \<times> form_value) list \<Rightarrow> page_state \<Rightarrow> page_state" where
  "uploadMutation_mutate formData s =
     fetch \<lparr>req_method = POST, req_url = js ''/api/music-files'', req_body = Some formData\<rparr>
       (s\<lparr>uploadPending := True\<rparr>)"

definition uploadMutation_mutationFn :: "fetch_result \<Rightarrow> js_error + unit" where
  "uploadMutation_mutationFn r =
     (case r of
        Network_error \<Rightarrow> Inl TypeError
      | Response status parses \<Rightarrow>
          if \<not> ok status then Inl (Error (js ''Upload failed''))
          else if parses then Inr () else Inl SyntaxError)"

definition uploadMutation_onSuccess :: "page \<Rightarrow> page_state \<Rightarrow> page_state" where
  "uploadMutation_onSuccess p s =
     (let s1 = invalidateQueries p [Key_string (js ''/api/music-files'')] s;
          s2 = s1\<lparr>selectedFile := None\<rparr>;
          s3 = s2\<lparr>marchName := []\<rparr>;
          s4 = (case fileInputRef s3 of None \<Rightarrow> s3 | Some _ \<Rightarrow> s3\<lparr>fileInputRef := Some []\<rparr>)
      in toast \<lparr>t_title = Basarili, t_description = File_uploaded p,
                 t_variant = Default_variant\<rparr> s4)"

definition uploadMutation_onError :: "page_state \<Rightarrow> page_state" where
  "uploadMutation_onError s =
     toast \<lparr>t_title = Hata, t_description = File_not_uploaded, t_variant = Destructive\<rparr> s"

definition uploadMutation_settle :: "page \<Rightarrow> fetch_result \<Rightarrow> page_state \<Rightarrow> page_state" where
  "uploadMutation_settle p r s =
     (let s' = (case uploadMutation_mutationFn r of
                  Inr _ \<Rightarrow> uploadMutation_onSuccess p s
                | Inl _ \<Rightarrow> uploadMutation_onError s)
      in s'\<lparr>uploadPending := False\<rparr>)"

definition handleUpload :: "page \<Rightarrow> page_state \<Rightarrow> page_state" where
  "handleUpload p s =
     (case selectedFile s of
        None \<Rightarrow> toast \<lparr>t_title = Hata, t_description = Select_file_and_name,
                       t_variant = Destructive\<rparr> s
      | Some f \<Rightarrow>
          if trim (marchName s) = []
          then toast \<lparr>t_title = Hata, t_description = Select_file_and_name,
                      t_variant = Destructive\<rparr> s
          else uploadMutation_mutate
                 [(js ''file'', Form_file f),
                  (js ''name'', Form_string (trim (marchName s))),
                  (js ''type'', Form_string (type_tag p))] s)"

text \<open>
  The upload button: \<^verbatim>\<open>onClick={handleUpload}\<close> and
  \<^verbatim>\<open>disabled={!selectedFile || !marchName.trim() || uploadMutation.isPending}\<close>. A disabled
  button delivers no click.
\<close>

definition upload_disabled :: "page_state \<Rightarrow> bool" where
  "upload_disabled s \<longleftrightarrow> selectedFile s = None \<or> trim (marchName s) = [] \<or> uploadPending s"

definition upload_click :: "page \<Rightarrow> page_state \<Rightarrow> page_state" where
  "upload_click p s = (if upload_disabled s then s else handleUpload p s)"

subsection \<open>Deleting\<close>

definition deleteMutation_mutate :: "js_string \<Rightarrow> page_state \<Rightarrow> page_state" where
  "deleteMutation_mutate ident s =
     fetch \<lparr>req_method = DELETE, req_url = js ''/api/music-files/'' @ ident, req_body = None\<rparr>
       (s\<lparr>deletePending := True\<rparr>)"

definition deleteMutation_mutationFn :: "fetch_result \<Rightarrow> js_error + unit" where
  "deleteMutation_mutationFn r =
     (case r of
        Network_error \<Rightarrow> Inl TypeError
      | Response status parses \<Rightarrow>
          if \<not> ok status then Inl (Error (js ''Delete failed'')) else Inr ())"

definition deleteMutation_onSuccess :: "page \<Rightarrow> page_state \<Rightarrow> page_state" where
  "deleteMutation_onSuccess p s =
     toast \<lparr>t_title = Basarili, t_description = File_deleted p, t_variant = Default_variant\<rparr>
       (invalidateQueries p [Key_string (js ''/api/music-files'')] s)"

definition deleteMutation_onError :: "page_state \<Rightarrow> page_state" where
  "deleteMutation_onError s =
     toast \<lparr>t_title = Hata, t_description = File_not_deleted, t_variant = Destructive\<rparr> s"

definition deleteMutation_settle :: "page \<Rightarrow> fetch_result \<Rightarrow> page_state \<Rightarrow> page_state" where
  "deleteMutation_settle p r s =
     (let s' = (case deleteMutation_mutationFn r of
                  Inr _ \<Rightarrow> deleteMutation_onSuccess p s
                | Inl _ \<Rightarrow> deleteMutation_onError s)
      in s'\<lparr>deletePending := False\<rparr>)"

subsection \<open>Playing\<close>

text \<open>
  \<^verbatim>\<open>audioRef.current?.pause()\<close> does nothing on a \<^verbatim>\<open>null\<close> ref, and the other branch is
  guarded by \<^verbatim>\<open>if (audioRef.current)\<close>.
\<close>

definition handlePlay :: "js_string \<Rightarrow> js_string \<Rightarrow> page_state \<Rightarrow> page_state" where
  "handlePlay audioUrl ident s =
     (if playingAudio s = Some ident
      then s\<lparr>audioRef := map_option pause (audioRef s), playingAudio := None\<rparr>
      else (case audioRef s of
              None \<Rightarrow> s
            | Some el \<Rightarrow> s\<lparr>audioRef := Some (play (el\<lparr>src := audioUrl\<rparr>)),
                          playingAudio := Some ident\<rparr>))"

definition handlePlayVideo :: "js_string \<Rightarrow> js_string \<Rightarrow> page_state \<Rightarrow> page_state" where
  "handlePlayVideo videoUrl ident s =
     (if playingVideo s = Some ident
      then s\<lparr>videoRef := map_option pause (videoRef s), playingVideo := None\<rparr>
      else (case videoRef s of
              None \<Rightarrow> s
            | Some el \<Rightarrow> s\<lparr>videoRef := Some (play (el\<lparr>src := videoUrl\<rparr>)),
                          playingVideo := Some ident\<rparr>))"

text \<open>
  \<^verbatim>\<open>s.endsWith(t)\<close> compares \<^verbatim>\<open>t\<close> with the code units of \<^verbatim>\<open>s\<close> from position
  \<^verbatim>\<open>s.length - t.length\<close>, and is false when that position is negative.
\<close>

definition endsWith :: "js_string \<Rightarrow> js_string \<Rightarrow> bool" where
  "endsWith s t \<longleftrightarrow> length t \<le> length s \<and> drop (length s - length t) s = t"

text \<open>
  The parameter \<^verbatim>\<open>filename\<close> is declared a \<^verbatim>\<open>string\<close>, but the types are gone when the
  page runs: on \<^verbatim>\<open>undefined\<close> the read of \<^verbatim>\<open>filename.endsWith\<close> throws a \<^verbatim>\<open>TypeError\<close>.
\<close>

definition handlePlayFavorite ::
  "page \<Rightarrow> js_string option \<Rightarrow> js_string \<Rightarrow> page_state \<Rightarrow> js_error + page_state" where
  "handlePlayFavorite p filename ident s =
     (case filename of
        None \<Rightarrow> Inl TypeError
      | Some fn \<Rightarrow>
          if endsWith fn (js ''.mp4'')
          then Inr (handlePlayVideo (videos_dir p @ fn) ident s)
          else Inr (toast \<lparr>t_title = Bilgi, t_description = Needs_real_file fn,
                           t_variant = Default_variant\<rparr> s))"

text \<open>
  The play button of a favorite row. The Marches page passes \<^verbatim>\<open>march.filename\<close>, the Music
  page passes \<^verbatim>\<open>music.filename || ""\<close>, which is the empty string when the filename is
  \<^verbatim>\<open>undefined\<close> or empty.
\<close>

definition favorite_onClick :: "page \<Rightarrow> favorite \<Rightarrow> page_state \<Rightarrow> js_error + page_state" where
  "favorite_onClick p fav s =
     (case p of
        Marches \<Rightarrow> handlePlayFavorite p (fav_filename fav) (fav_id fav) s
      | Music \<Rightarrow>
          handlePlayFavorite p
            (Some (case fav_filename fav of
                     None \<Rightarrow> []
                   | Some fn \<Rightarrow> if fn = [] then [] else fn))
            (fav_id fav) s)"

text \<open>
  The two buttons of an uploaded row: \<^verbatim>\<open>onClick\<close> of the play button, and \<^verbatim>\<open>onClick\<close>
  of the delete button, which is rendered with \<^verbatim>\<open>disabled={deleteMutation.isPending}\<close>.
\<close>

definition uploaded_onClickPlay :: "music_file \<Rightarrow> page_state \<Rightarrow> page_state" where
  "uploaded_onClickPlay f s = handlePlay (js ''/uploads/'' @ mf_filename f) (mf_id f) s"

definition uploaded_onClickDelete :: "music_file \<Rightarrow> page_state \<Rightarrow> page_state" where
  "uploaded_onClickDelete f s = deleteMutation_mutate (mf_id f) s"

definition delete_disabled :: "page_state \<Rightarrow> bool" where
  "delete_disabled s \<longleftrightarrow> deletePending s"

definition delete_click :: "music_file \<Rightarrow> page_state \<Rightarrow> page_state" where
  "delete_click f s = (if delete_disabled s then s else uploaded_onClickDelete f s)"

text \<open>The \<^verbatim>\<open>onEnded\<close> and \<^verbatim>\<open>onError\<close> handlers of the two media elements.\<close>

definition audio_onEnded :: "page_state \<Rightarrow> page_state" where
  "audio_onEnded s = s\<lparr>playingAudio := None\<rparr>"

definition audio_onError :: "page_state \<Rightarrow> page_state" where
  "audio_onError s = s\<lparr>playingAudio := None\<rparr>"

definition video_onEnded :: "page_state \<Rightarrow> page_state" where
  "video_onEnded s = s\<lparr>playingVideo := None\<rparr>"

definition video_onError :: "page_state \<Rightarrow> page_state" where
  "video_onError s = s\<lparr>playingVideo := None\<rparr>"

subsection \<open>The page as a whole\<close>

text \<open>
  Everything that can happen to a mounted page: the user's actions, the settling of a
  request, and the events of the two media elements. An event takes effect only where
  the page can receive it: a click needs its button to be rendered and enabled (the rows
  are rendered from the lists on display), a request settles only while it is in flight.
  Otherwise the state stays. An exception thrown by a handler leaves the state cells as
  they were.
\<close>

datatype event =
    Select "js_file list option"
  | Type_name js_string
  | Click_upload
  | Upload_settled fetch_result
  | Click_play music_file
  | Click_delete music_file
  | Delete_settled fetch_result
  | Uploaded_settled "music_file list"
  | Uploaded_failed
  | Favorites_settled "favorite list"
  | Favorites_failed
  | Click_favorite favorite
  | Audio_ended
  | Audio_error
  | Video_ended
  | Video_error

definition handle :: "page \<Rightarrow> event \<Rightarrow> page_state \<Rightarrow> js_error + page_state" where
  "handle p e s =
     (case e of
        Select files \<Rightarrow> Inr (handleFileSelect files s)
      | Type_name v \<Rightarrow> Inr (setMarchName v s)
      | Click_upload \<Rightarrow> Inr (upload_click p s)
      | Upload_settled r \<Rightarrow> Inr (if uploadPending s then uploadMutation_settle p r s else s)
      | Click_play f \<Rightarrow> Inr (if f \<in> set (uploadedFiles s) then uploaded_onClickPlay f s else s)
      | Click_delete f \<Rightarrow> Inr (if f \<in> set (uploadedFiles s) then delete_click f s else s)
      | Delete_settled r \<Rightarrow> Inr (if deletePending s then deleteMutation_settle p r s else s)
      | Uploaded_settled fs \<Rightarrow> Inr (if uploadedFetching s then uploadedQuery_settle fs s else s)
      | Uploaded_failed \<Rightarrow> Inr (if uploadedFetching s then uploadedQuery_fail s else s)
      | Favorites_settled fs \<Rightarrow>
          Inr (if favoritesFetching s then favoritesQuery_settle fs s else s)
      | Favorites_failed \<Rightarrow> Inr (if favoritesFetching s then favoritesQuery_fail s else s)
      | Click_favorite fav \<Rightarrow>
          if fav \<in> set (favoriteMarches s) then favorite_onClick p fav s else Inr s
      | Audio_ended \<Rightarrow> Inr (audio_onEnded s)
      | Audio_error \<Rightarrow> Inr (audio_onError s)
      | Video_ended \<Rightarrow> Inr (video_onEnded s)
      | Video_error \<Rightarrow> Inr (video_onError s))"

fun run :: "page \<Rightarrow> event list \<Rightarrow> page_state \<Rightarrow> page_state" where
  "run p [] s = s"
| "run p (e # es) s = run p es (case handle p e s of Inl _ \<Rightarrow> s | Inr s' \<Rightarrow> s')"

definition refs_attached :: "page_state \<Rightarrow> bool" where
  "refs_attached s \<longleftrightarrow> audioRef s \<noteq> None \<and> videoRef s \<noteq> None \<and> fileInputRef s \<noteq> None"

text \<open>A delete is pending only on a page whose list of uploaded files has arrived.\<close>

definition delete_has_data :: "page_state \<Rightarrow> bool" where
  "delete_has_data s \<longleftrightarrow> (deletePending s \<longrightarrow> uploadedData s \<noteq> None)"

text \<open>The outcome of a click is that the video element has the source \<open>url\<close> and plays.\<close>

definition starts_video :: "js_string \<Rightarrow> js_error + page_state \<Rightarrow> bool" where
  "starts_video url r \<longleftrightarrow>
     (case r of Inl _ \<Rightarrow> False
              | Inr s' \<Rightarrow> videoRef s' = Some \<lparr>src = url, paused = False\<rparr>)"

subsection \<open>The specification's notion of an extension\<close>

text \<open>
  The name \<open>n\<close> ends with \<^verbatim>\<open>.ext\<close>: it is \<open>base\<close>, a dot, and a non-empty extension with
  neither a dot nor a slash in it.
\<close>

definition final_ext :: "js_string \<Rightarrow> js_string \<Rightarrow> js_string \<Rightarrow> bool" where
  "final_ext n base ext \<longleftrightarrow>
     n = base @ js ''.'' @ ext \<and> ext \<noteq> []
     \<and> of_char (CHR ''.'') \<notin> set ext \<and> of_char (CHR ''/'') \<notin> set ext"

subsection \<open>Example inputs\<close>

definition zeybek :: js_file where
  "zeybek = \<lparr>file_name = js ''zeybek.mp3'', file_type = js ''audio/mpeg''\<rparr>"

definition izmir_marsi :: js_file where
  "izmir_marsi = \<lparr>file_name = js ''izmir'', file_type = js ''audio/mp3''\<rparr>"

definition notes_txt :: js_file where
  "notes_txt = \<lparr>file_name = js ''notes.txt'', file_type = js ''text/plain''\<rparr>"

text \<open>
  The Marches page after \<^verbatim>\<open>zeybek.mp3\<close> was picked: the browser has put the fake path into
  the file input, and the change event has run \<open>handleFileSelect\<close>.
\<close>

definition zeybek_selected :: page_state where
  "zeybek_selected =
     handleFileSelect (Some [zeybek])
       ((mount Marches)\<lparr>fileInputRef :=
          Some (js ''C:'' @ [0x5C] @ js ''fakepath'' @ [0x5C] @ js ''zeybek.mp3'')\<rparr>)"

text \<open>
  The same draft with the name replaced by a space, a tab and an ideographic space
  (U+3000).
\<close>

definition blank_name :: page_state where
  "blank_name = setMarchName [0x0020, 0x0009, 0x3000] zeybek_selected"

text \<open>
  The upload button was clicked on that draft while the first fetch of the list was
  still in flight.
\<close>

definition zeybek_uploading :: page_state where
  "zeybek_uploading = upload_click Marches zeybek_selected"

definition file_42 :: music_file where
  "file_42 = \<lparr>mf_id = js ''42'', mf_name = js ''zeybek'', mf_originalName = js ''zeybek.mp3'',
              mf_filename = js ''1700000000-zeybek.mp3''\<rparr>"

text \<open>The Marches page showing one uploaded file, and then with its deletion requested.\<close>

definition listed_42 :: page_state where
  "listed_42 = uploadedQuery_settle [file_42] (mount Marches)"

definition deleting_42 :: page_state where
  "deleting_42 = delete_click file_42 listed_42"


definition onuncu_yil :: favorite where
  "onuncu_yil = \<lparr>fav_id = js ''1'', fav_title = js ''Onuncu Yil Marsi'', fav_artist = None,
                 fav_description = js ''1933'', fav_filename = Some (js ''onuncu_yil.mp4'')\<rparr>"

definition harbiye :: favorite where
  "harbiye = \<lparr>fav_id = js ''2'', fav_title = js ''Harbiye Marsi'', fav_artist = None,
              fav_description = js ''mars'', fav_filename = None\<rparr>"

definition sari_zeybek :: favorite where
  "sari_zeybek = \<lparr>fav_id = js ''3'', fav_title = js ''Sari Zeybek'',
                  fav_artist = Some (js ''anonim''), fav_description = js ''zeybek'',
                  fav_filename = Some (js ''sari_zeybek.mp3'')\<rparr>"

text \<open>The Marches page while the favorite video of id 1 plays.\<close>

definition onuncu_yil_playing :: page_state where
  "onuncu_yil_playing =
     (mount Marches)\<lparr>videoRef := Some \<lparr>src = js ''/videos/marches/onuncu_yil.mp4'',
                                        paused = False\<rparr>,
                     playingVideo := Some (js ''1'')\<rparr>"

text \<open>The Marches page while the uploaded file 42 and the favorite video of id 1 play.\<close>

definition both_playing :: page_state where
  "both_playing =
     (mount Marches)\<lparr>audioRef := Some \<lparr>src = js ''/uploads/1700000000-zeybek.mp3'',
                                        paused = False\<rparr>,
                     playingAudio := Some (js ''42''),
                     videoRef := Some \<lparr>src = js ''/videos/marches/onuncu_yil.mp4'',
                                        paused = False\<rparr>,
                     playingVideo := Some (js ''1'')\<rparr>"

section \<open>Properties\<close>

subsection \<open>Strings\<close>

lemma match_here_iff:
  "match_here n \<longleftrightarrow>
     (\<exists>ext. n = of_char (CHR ''.'') # ext \<and> ext \<noteq> [] \<and> (\<forall>c\<in>set ext. ext_char c))"
proof (cases n)
  case Nil
  then show ?thesis by simp
next
  case (Cons c cs)
  have "takeWhile ext_char cs \<noteq> [] \<and> dropWhile ext_char cs = []
        \<longleftrightarrow> cs \<noteq> [] \<and> (\<forall>c\<in>set cs. ext_char c)"
    by (cases cs) (auto simp: dropWhile_eq_Nil_conv)
  with Cons show ?thesis by auto
qed

lemma replace_ext_split:
  assumes "ext \<noteq> []" and "\<forall>c\<in>set ext. ext_char c"
  shows "replace_ext (base @ of_char (CHR ''.'') # ext) = base"
  using assms
proof (induction base)
  case Nil
  then show ?case by (simp add: match_here_iff)
next
  case (Cons b base)
  have "\<not> match_here (b # base @ of_char (CHR ''.'') # ext)"
    by (auto simp: match_here_iff ext_char_def)
  with Cons show ?case by simp
qed

lemma replace_ext_unchanged:
  assumes "\<And>base ext. n = base @ of_char (CHR ''.'') # ext \<Longrightarrow> ext \<noteq> []
             \<Longrightarrow> \<exists>c\<in>set ext. \<not> ext_char c"
  shows "replace_ext n = n"
  using assms
proof (induction n)
  case Nil
  then show ?case by simp
next
  case (Cons a n)
  have nm: "\<not> match_here (a # n)"
  proof
    assume "match_here (a # n)"
    then obtain ext where "a # n = of_char (CHR ''.'') # ext" "ext \<noteq> []"
      "\<forall>c\<in>set ext. ext_char c"
      by (auto simp: match_here_iff)
    with Cons.prems [of "[]" ext] show False by auto
  qed
  have "replace_ext n = n"
  proof (rule Cons.IH)
    fix base ext assume "n = base @ of_char (CHR ''.'') # ext" "ext \<noteq> []"
    with Cons.prems [of "a # base" ext] show "\<exists>c\<in>set ext. \<not> ext_char c" by simp
  qed
  with nm show ?case by simp
qed

text \<open>A name ends with at most one \<^verbatim>\<open>.ext\<close>, so the longest one is the only one.\<close>

lemma final_ext_unique:
  assumes "final_ext n base ext" and "final_ext n base' ext'"
  shows "base = base' \<and> ext = ext'"
proof -
  from assms have "replace_ext n = base" "replace_ext n = base'"
    using replace_ext_split [of ext base] replace_ext_split [of ext' base']
    by (auto simp: final_ext_def ext_char_def js_def)
  with assms show ?thesis by (auto simp: final_ext_def)
qed

lemma all_dropWhile: "(\<forall>x\<in>set (dropWhile P n). P x) \<longleftrightarrow> (\<forall>x\<in>set n. P x)"
  by (induction n) auto

text \<open>The trimmed name is empty exactly for the empty and the white-space-only names.\<close>

lemma trim_empty_iff: "trim n = [] \<longleftrightarrow> (\<forall>c\<in>set n. js_whitespace c)"
  by (simp add: trim_def dropWhile_eq_Nil_conv all_dropWhile)

lemma endsWith_iff: "endsWith s t \<longleftrightarrow> (\<exists>b. s = b @ t)"
  unfolding endsWith_def
proof
  assume a: "length t \<le> length s \<and> drop (length s - length t) s = t"
  have "s = take (length s - length t) s @ drop (length s - length t) s" by simp
  with a show "\<exists>b. s = b @ t" by metis
next
  assume "\<exists>b. s = b @ t"
  then show "length t \<le> length s \<and> drop (length s - length t) s = t" by auto
qed

lemma zeybek_selected_draft:
  "selectedFile zeybek_selected = Some zeybek \<and> marchName zeybek_selected = js ''zeybek''
   \<and> toasts zeybek_selected = []"
  by (simp add: zeybek_selected_def handleFileSelect_def first_file_def zeybek_def
      allowedTypes_def mount_def ext_char_def js_def)

subsection \<open>Selecting a file\<close>

text \<open>
  C10. A change event of the file input that carries no file (the file list is \<^verbatim>\<open>null\<close> or
  empty, as when the picker is cancelled) leaves the whole page state as it is: the
  selected file and the name are unchanged and no toast is shown.
\<close>

theorem handleFileSelect_without_file:
  assumes "files = None \<or> files = Some []"
  shows "handleFileSelect files s = s"
  using assms by (auto simp: handleFileSelect_def first_file_def)

theorem handleFileSelect_without_file_witness:
  "handleFileSelect None zeybek_selected = zeybek_selected
   \<and> handleFileSelect (Some []) zeybek_selected = zeybek_selected"
  using handleFileSelect_without_file [of None zeybek_selected]
        handleFileSelect_without_file [of "Some []" zeybek_selected]
  by simp

text \<open>
  C4. Selecting a file whose MIME type is not one of \<^verbatim>\<open>audio/mpeg\<close>, \<^verbatim>\<open>audio/mp3\<close>,
  \<^verbatim>\<open>audio/mp4\<close>, \<^verbatim>\<open>video/mp4\<close> shows the destructive error toast and changes nothing
  else: the selected file and the name of the draft stay.
\<close>

theorem handleFileSelect_rejects_type:
  assumes "file_type f \<notin> set allowedTypes"
  shows "handleFileSelect (Some (f # fs)) s =
           s\<lparr>toasts := toasts s @ [\<lparr>t_title = Hata, t_description = Only_mp3_mp4_accepted,
                                     t_variant = Destructive\<rparr>]\<rparr>
         \<and> selectedFile (handleFileSelect (Some (f # fs)) s) = selectedFile s
         \<and> marchName (handleFileSelect (Some (f # fs)) s) = marchName s"
  using assms by (simp add: handleFileSelect_def first_file_def toast_def)

theorem handleFileSelect_rejects_type_witness:
  "file_type notes_txt \<notin> set allowedTypes
   \<and> selectedFile (handleFileSelect (Some [notes_txt]) zeybek_selected) = Some zeybek
   \<and> marchName (handleFileSelect (Some [notes_txt]) zeybek_selected) = js ''zeybek''
   \<and> toasts (handleFileSelect (Some [notes_txt]) zeybek_selected) =
       [\<lparr>t_title = Hata, t_description = Only_mp3_mp4_accepted, t_variant = Destructive\<rparr>]"
proof -
  have h: "file_type notes_txt \<notin> set allowedTypes"
    by (simp add: notes_txt_def allowedTypes_def js_def)
  from handleFileSelect_rejects_type [OF h, of "[]" zeybek_selected] zeybek_selected_draft h
  show ?thesis by simp
qed

text \<open>
  C3. When a file of an allowed type is selected, it becomes the selected file and the
  name of the draft is the file's name without its final \<^verbatim>\<open>.ext\<close>: whenever the name is
  \<open>base\<close>, a dot and an extension, the draft name is \<open>base\<close>; a name that does not
  end with an extension is taken as it is. \<^verbatim>\<open>zeybek.mp3\<close> gives \<^verbatim>\<open>zeybek\<close>.
\<close>

theorem handleFileSelect_auto_name:
  assumes "file_type f \<in> set allowedTypes"
  shows "(\<forall>base ext. final_ext (file_name f) base ext \<longrightarrow>
            marchName (handleFileSelect (Some (f # fs)) s) = base)
         \<and> ((\<forall>base ext. \<not> final_ext (file_name f) base ext) \<longrightarrow>
            marchName (handleFileSelect (Some (f # fs)) s) = file_name f)
         \<and> selectedFile (handleFileSelect (Some (f # fs)) s) = Some f"
proof -
  have n: "marchName (handleFileSelect (Some (f # fs)) s) = replace_ext (file_name f)"
    and sel: "selectedFile (handleFileSelect (Some (f # fs)) s) = Some f"
    using assms by (simp_all add: handleFileSelect_def first_file_def)
  have a: "replace_ext (file_name f) = base" if "final_ext (file_name f) base ext" for base ext
    using that replace_ext_split [of ext base] by (auto simp: final_ext_def ext_char_def js_def)
  have b: "replace_ext (file_name f) = file_name f"
    if no: "\<forall>base ext. \<not> final_ext (file_name f) base ext"
  proof (rule replace_ext_unchanged)
    fix base ext assume "file_name f = base @ of_char (CHR ''.'') # ext" "ext \<noteq> []"
    with no [rule_format, of base ext] show "\<exists>c\<in>set ext. \<not> ext_char c"
      by (auto simp: final_ext_def ext_char_def js_def)
  qed
  from n sel a b show ?thesis by auto
qed

theorem handleFileSelect_auto_name_witness:
  "file_type zeybek \<in> set allowedTypes
   \<and> final_ext (file_name zeybek) (js ''zeybek'') (js ''mp3'')
   \<and> marchName (handleFileSelect (Some [zeybek]) (mount Marches)) = js ''zeybek''
   \<and> file_type izmir_marsi \<in> set allowedTypes
   \<and> (\<forall>base ext. \<not> final_ext (file_name izmir_marsi) base ext)
   \<and> marchName (handleFileSelect (Some [izmir_marsi]) (mount Marches)) = js ''izmir''"
proof -
  have h: "file_type zeybek \<in> set allowedTypes"
    by (simp add: zeybek_def allowedTypes_def js_def)
  have e: "final_ext (file_name zeybek) (js ''zeybek'') (js ''mp3'')"
    by (simp add: zeybek_def final_ext_def js_def)
  from handleFileSelect_auto_name [OF h, of "[]" "mount Marches"] e
  have z: "marchName (handleFileSelect (Some [zeybek]) (mount Marches)) = js ''zeybek''"
    by blast
  have h': "file_type izmir_marsi \<in> set allowedTypes"
    by (simp add: izmir_marsi_def allowedTypes_def js_def)
  have e': "\<not> final_ext (file_name izmir_marsi) base ext" for base ext
  proof
    assume "final_ext (file_name izmir_marsi) base ext"
    then have "set (js ''izmir'') = set (base @ js ''.'' @ ext)"
      by (simp add: final_ext_def izmir_marsi_def)
    then have "of_char (CHR ''.'') \<in> set (js ''izmir'')" by (simp add: js_def)
    then show False by (simp add: js_def)
  qed
  from handleFileSelect_auto_name [OF h', of "[]" "mount Marches"] e'
  have "marchName (handleFileSelect (Some [izmir_marsi]) (mount Marches)) = js ''izmir''"
    by (simp add: izmir_marsi_def)
  with h e z h' e' show ?thesis by simp
qed

subsection \<open>Uploading\<close>

text \<open>
  The key \<^verbatim>\<open>["/api/music-files"]\<close> matches the query of the uploaded files and not the
  query of the favorites, on both pages: invalidating it marks the uploaded list
  invalidated and refetches it.
\<close>

lemma invalidate_music_files:
  "invalidateQueries p [Key_string (js ''/api/music-files'')] s =
     refetch_uploaded p (s\<lparr>uploadedStale := True\<rparr>)"
  by (cases p) (simp_all add: invalidateQueries_def uploaded_queryKey_def favorites_queryKey_def
      js_def)

lemma zeybek_uploading_fields:
  "selectedFile zeybek_uploading = Some zeybek \<and> marchName zeybek_uploading = js ''zeybek''
   \<and> fileInputRef zeybek_uploading \<noteq> None \<and> toasts zeybek_uploading = []
   \<and> uploadPending zeybek_uploading
   \<and> uploadedData zeybek_uploading = None \<and> uploadedFetching zeybek_uploading
   \<and> requests zeybek_uploading =
       [\<lparr>req_method = GET, req_url = js ''/api/music-files?type=march'', req_body = None\<rparr>,
        \<lparr>req_method = GET, req_url = js ''/api/favorite-marches'', req_body = None\<rparr>,
        \<lparr>req_method = POST, req_url = js ''/api/music-files'',
          req_body = Some [(js ''file'', Form_file zeybek),
                           (js ''name'', Form_string (js ''zeybek'')),
                           (js ''type'', Form_string (js ''march''))]\<rparr>]"
  by (simp add: zeybek_uploading_def upload_click_def upload_disabled_def handleUpload_def
      uploadMutation_mutate_def fetch_def zeybek_selected_def handleFileSelect_def
      first_file_def zeybek_def allowedTypes_def mount_def ext_char_def trim_def
      js_whitespace_def uploaded_url_def favorites_url_def type_tag_def js_def)


lemma blank_name_fields:
  "selectedFile blank_name = Some zeybek \<and> trim (marchName blank_name) = []
   \<and> toasts blank_name = []"
  using zeybek_selected_draft
  by (simp add: blank_name_def setMarchName_def trim_def js_whitespace_def)

text \<open>
  C5, as the code has it. While no file is selected, or while the trimmed name is empty
  (an empty name or one of white space only, by \<open>trim_empty_iff\<close>), the upload button is
  disabled: a click on it changes nothing, so no request is issued and no toast is shown.
  The handler behind the button has the same guard: called in such a state, it shows the
  destructive error toast and issues no request.
\<close>

theorem upload_click_blocked:
  assumes "selectedFile s = None \<or> trim (marchName s) = []"
  shows "upload_disabled s
         \<and> upload_click p s = s
         \<and> handle p Click_upload s = Inr s
         \<and> handleUpload p s =
             s\<lparr>toasts := toasts s @ [\<lparr>t_title = Hata, t_description = Select_file_and_name,
                                       t_variant = Destructive\<rparr>]\<rparr>
         \<and> requests (handleUpload p s) = requests s"
  using assms
  by (auto simp: upload_disabled_def upload_click_def handle_def handleUpload_def toast_def
      split: option.splits)

theorem upload_click_blocked_witness:
  "selectedFile blank_name = Some zeybek \<and> trim (marchName blank_name) = []
   \<and> upload_click Marches blank_name = blank_name
   \<and> requests (handleUpload Marches blank_name) = requests blank_name
   \<and> toasts (handleUpload Marches blank_name) =
       [\<lparr>t_title = Hata, t_description = Select_file_and_name, t_variant = Destructive\<rparr>]
   \<and> selectedFile (mount Music) = None
   \<and> upload_click Music (mount Music) = mount Music"
proof -
  have m: "selectedFile (mount Music) = None" by (simp add: mount_def)
  from upload_click_blocked [of blank_name Marches] upload_click_blocked [of "mount Music" Music]
    blank_name_fields m show ?thesis by simp
qed

text \<open>
  C5, as the claim has it, fails: no error is surfaced. On the Marches page with
  \<^verbatim>\<open>zeybek.mp3\<close> selected and a name of white space only, the click on the upload button
  leaves the page as it is, without a toast.
\<close>

theorem upload_click_no_error_counterexample:
  "selectedFile blank_name = Some zeybek
   \<and> marchName blank_name = [0x0020, 0x0009, 0x3000]
   \<and> trim (marchName blank_name) = []
   \<and> handle Marches Click_upload blank_name = Inr blank_name
   \<and> toasts (upload_click Marches blank_name) = []"
  using blank_name_fields
  by (simp add: handle_def upload_click_def upload_disabled_def blank_name_def setMarchName_def)

text \<open>
  With a file, a name and no upload pending, the click sends the three fields to the
  create endpoint.
\<close>

lemma handleUpload_sends:
  assumes "selectedFile s = Some f" and "trim (marchName s) \<noteq> []"
  shows "handleUpload p s =
           s\<lparr>uploadPending := True,
             requests := requests s @
               [\<lparr>req_method = POST, req_url = js ''/api/music-files'',
                 req_body = Some [(js ''file'', Form_file f),
                                  (js ''name'', Form_string (trim (marchName s))),
                                  (js ''type'', Form_string (type_tag p))]\<rparr>]\<rparr>"
  using assms by (simp add: handleUpload_def uploadMutation_mutate_def fetch_def)

lemma upload_click_sends:
  assumes "selectedFile s = Some f" and "trim (marchName s) \<noteq> []" and "\<not> uploadPending s"
  shows "upload_click p s = handleUpload p s"
  using assms by (simp add: upload_click_def upload_disabled_def)




text \<open>
  C7. When the upload fails (the \<^verbatim>\<open>fetch\<close> rejects, or the response is not \<^verbatim>\<open>ok\<close>), the
  destructive error toast is shown, the mutation is no longer pending, and nothing else
  changes: the selected file and the name stay for another try.
\<close>

theorem upload_failure_keeps_draft:
  assumes "r = Network_error \<or> (\<exists>status parses. r = Response status parses \<and> \<not> ok status)"
  shows "uploadMutation_settle p r s =
           s\<lparr>uploadPending := False,
             toasts := toasts s @ [\<lparr>t_title = Hata, t_description = File_not_uploaded,
                                     t_variant = Destructive\<rparr>]\<rparr>
         \<and> selectedFile (uploadMutation_settle p r s) = selectedFile s
         \<and> marchName (uploadMutation_settle p r s) = marchName s"
  using assms
  by (auto simp: uploadMutation_settle_def uploadMutation_mutationFn_def
      uploadMutation_onError_def toast_def)

theorem upload_failure_keeps_draft_witness:
  "\<not> ok 500
   \<and> selectedFile (uploadMutation_settle Marches (Response 500 False) zeybek_uploading)
       = Some zeybek
   \<and> marchName (uploadMutation_settle Marches (Response 500 False) zeybek_uploading)
       = js ''zeybek''
   \<and> toasts (uploadMutation_settle Marches (Response 500 False) zeybek_uploading) =
       [\<lparr>t_title = Hata, t_description = File_not_uploaded, t_variant = Destructive\<rparr>]
   \<and> selectedFile (uploadMutation_settle Marches Network_error zeybek_uploading) = Some zeybek
   \<and> marchName (uploadMutation_settle Marches Network_error zeybek_uploading) = js ''zeybek''"
proof -
  have h: "\<not> ok 500" by (simp add: ok_def)
  then have "Response 500 False = Network_error
             \<or> (\<exists>status parses. Response 500 False = Response status parses \<and> \<not> ok status)"
    by blast
  from upload_failure_keeps_draft [OF this, of Marches zeybek_uploading]
    upload_failure_keeps_draft [of Network_error Marches zeybek_uploading]
    h zeybek_uploading_fields
  show ?thesis by simp
qed

subsection \<open>Deleting\<close>

text \<open>The delete button delivers its click unless a delete is pending.\<close>

lemma delete_click_delivered:
  "delete_click f s = (if deletePending s then s else uploaded_onClickDelete f s)"
  by (simp add: delete_click_def delete_disabled_def)

lemma deleting_42_fields:
  "uploadedFiles deleting_42 = [file_42] \<and> uploadedData deleting_42 = Some [file_42]
   \<and> deletePending deleting_42 \<and> toasts deleting_42 = []"
  by (simp add: deleting_42_def delete_click_def delete_disabled_def uploaded_onClickDelete_def
      deleteMutation_mutate_def fetch_def listed_42_def uploadedQuery_settle_def mount_def
      uploadedFiles_def)

text \<open>
  C8. The delete button of an uploaded row sends \<^verbatim>\<open>DELETE /api/music-files/{id}\<close> and
  leaves the list on display. When the response is \<^verbatim>\<open>ok\<close>, the query of the uploaded
  files is invalidated and refetched and the confirmation is shown; the refetch sends a
  new request for the list whenever the list has arrived before (as it has on a page that
  shows a row to delete, see \<open>mounted_delete_has_data\<close>). When the request fails (a rejected
  \<^verbatim>\<open>fetch\<close>, or a response that is not \<^verbatim>\<open>ok\<close>, such as 404), the destructive error toast
  is shown and nothing else changes but the end of the pending state: the list on display
  is the same and nothing is fetched.
\<close>

theorem delete_by_id:
  "requests (uploaded_onClickDelete f s) =
     requests s @ [\<lparr>req_method = DELETE, req_url = js ''/api/music-files/'' @ mf_id f,
                     req_body = None\<rparr>]
   \<and> uploadedFiles (uploaded_onClickDelete f s) = uploadedFiles s
   \<and> (ok status \<longrightarrow>
        deleteMutation_settle p (Response status parses) s =
          s\<lparr>deletePending := False, uploadedStale := True, uploadedFetching := True,
            requests := requests s @
              (if uploadedFetching s \<and> uploadedData s = None then []
               else [\<lparr>req_method = GET, req_url = uploaded_url p, req_body = None\<rparr>]),
            toasts := toasts s @ [\<lparr>t_title = Basarili, t_description = File_deleted p,
                                    t_variant = Default_variant\<rparr>]\<rparr>)
   \<and> (ok status \<and> uploadedData s \<noteq> None \<longrightarrow>
        requests (deleteMutation_settle p (Response status parses) s) =
          requests s @ [\<lparr>req_method = GET, req_url = uploaded_url p, req_body = None\<rparr>])
   \<and> (r = Network_error \<or> (\<exists>st b. r = Response st b \<and> \<not> ok st) \<longrightarrow>
        deleteMutation_settle p r s =
          s\<lparr>deletePending := False,
            toasts := toasts s @ [\<lparr>t_title = Hata, t_description = File_not_deleted,
                                    t_variant = Destructive\<rparr>]\<rparr>
        \<and> uploadedFiles (deleteMutation_settle p r s) = uploadedFiles s
        \<and> requests (deleteMutation_settle p r s) = requests s)"
  by (auto simp: uploaded_onClickDelete_def deleteMutation_mutate_def fetch_def
      deleteMutation_settle_def deleteMutation_mutationFn_def deleteMutation_onSuccess_def
      deleteMutation_onError_def invalidate_music_files refetch_uploaded_def toast_def
      uploadedFiles_def)

theorem delete_by_id_witness:
  "requests (uploaded_onClickDelete file_42 listed_42) =
     requests listed_42
     @ [\<lparr>req_method = DELETE, req_url = js ''/api/music-files/42'', req_body = None\<rparr>]
   \<and> \<not> ok 404
   \<and> uploadedFiles (deleteMutation_settle Marches (Response 404 False) deleting_42) = [file_42]
   \<and> toasts (deleteMutation_settle Marches (Response 404 False) deleting_42) =
       [\<lparr>t_title = Hata, t_description = File_not_deleted, t_variant = Destructive\<rparr>]
   \<and> requests (deleteMutation_settle Marches (Response 404 False) deleting_42) =
       requests deleting_42
   \<and> ok 204
   \<and> uploadedStale (deleteMutation_settle Marches (Response 204 False) deleting_42)
   \<and> requests (deleteMutation_settle Marches (Response 204 False) deleting_42) =
       requests deleting_42
       @ [\<lparr>req_method = GET, req_url = js ''/api/music-files?type=march'', req_body = None\<rparr>]
   \<and> toasts (deleteMutation_settle Marches (Response 204 False) deleting_42) =
       [\<lparr>t_title = Basarili, t_description = File_deleted Marches, t_variant = Default_variant\<rparr>]"
proof -
  have i: "js ''/api/music-files/'' @ mf_id file_42 = js ''/api/music-files/42''"
    by (simp add: file_42_def js_def)
  have u: "uploaded_url Marches = js ''/api/music-files?type=march''"
    by (simp add: uploaded_url_def type_tag_def js_def)
  have n: "\<not> ok 404" and y: "ok 204" by (simp_all add: ok_def)
  from n have f: "Response 404 False = Network_error
                  \<or> (\<exists>st b. Response 404 False = Response st b \<and> \<not> ok st)"
    by blast
  from delete_by_id [of file_42 listed_42]
  have 1: "requests (uploaded_onClickDelete file_42 listed_42) =
             requests listed_42
             @ [\<lparr>req_method = DELETE, req_url = js ''/api/music-files/42'', req_body = None\<rparr>]"
    using i by simp
  from delete_by_id [of file_42 deleting_42 204 Marches False "Response 404 False"]
    deleting_42_fields n y f u
  show ?thesis using 1 by (simp add: uploadedFiles_def)
qed

subsection \<open>What holds on every page since it was mounted\<close>

text \<open>
  The three elements are rendered with the page, and no handler detaches a ref: whatever
  has happened since the page was mounted, the refs are attached.
\<close>

lemma handle_refs_attached:
  assumes "refs_attached s" and "handle p e s = Inr s'"
  shows "refs_attached s'"
  using assms
  by (cases e)
     (auto simp: handle_def refs_attached_def handleFileSelect_def setMarchName_def
        upload_click_def handleUpload_def uploadMutation_settle_def
        uploadMutation_onSuccess_def uploadMutation_onError_def uploadMutation_mutate_def
        invalidate_music_files refetch_uploaded_def uploaded_onClickPlay_def delete_click_def
        uploaded_onClickDelete_def deleteMutation_mutate_def deleteMutation_settle_def
        deleteMutation_onSuccess_def deleteMutation_onError_def uploadedQuery_settle_def
        uploadedQuery_fail_def favoritesQuery_settle_def favoritesQuery_fail_def
        favorite_onClick_def handlePlayFavorite_def handlePlay_def handlePlayVideo_def
        audio_onEnded_def audio_onError_def video_onEnded_def video_onError_def toast_def
        fetch_def Let_def
        split: option.splits sum.splits if_splits page.splits)

lemma run_refs_attached: "refs_attached s \<Longrightarrow> refs_attached (run p es s)"
proof (induction es arbitrary: s)
  case Nil
  then show ?case by simp
next
  case (Cons e es)
  show ?case
  proof (cases "handle p e s")
    case (Inl err)
    with Cons show ?thesis by simp
  next
    case (Inr s')
    from handle_refs_attached [OF Cons.prems Inr] have "refs_attached s'" .
    with Cons.IH Inr show ?thesis by simp
  qed
qed

lemma mounted_refs_attached: "refs_attached (run p es (mount p))"
  by (rule run_refs_attached) (simp add: refs_attached_def mount_def)

text \<open>
  The delete button belongs to a row of the list on display, and data that has arrived
  never goes away: while a delete is pending, the list of uploaded files has data.
\<close>

lemma row_has_data: "f \<in> set (uploadedFiles s) \<Longrightarrow> uploadedData s \<noteq> None"
  by (cases "uploadedData s") (simp_all add: uploadedFiles_def)

lemma handle_delete_has_data:
  assumes "delete_has_data s" and "handle p e s = Inr s'"
  shows "delete_has_data s'"
proof (cases e)
  case (Click_delete f)
  show ?thesis
  proof (cases "f \<in> set (uploadedFiles s)")
    case True
    from row_has_data [OF True] assms Click_delete True show ?thesis
      by (auto simp: handle_def delete_has_data_def delete_click_def delete_disabled_def
          uploaded_onClickDelete_def deleteMutation_mutate_def fetch_def)
  next
    case False
    with assms Click_delete show ?thesis by (simp add: handle_def)
  qed
qed (use assms in \<open>auto simp: handle_def delete_has_data_def handleFileSelect_def
        setMarchName_def upload_click_def handleUpload_def uploadMutation_settle_def
        uploadMutation_onSuccess_def uploadMutation_onError_def uploadMutation_mutate_def
        invalidate_music_files refetch_uploaded_def uploaded_onClickPlay_def
        deleteMutation_settle_def deleteMutation_onSuccess_def deleteMutation_onError_def
        uploadedQuery_settle_def uploadedQuery_fail_def favoritesQuery_settle_def
        favoritesQuery_fail_def favorite_onClick_def handlePlayFavorite_def handlePlay_def
        handlePlayVideo_def audio_onEnded_def audio_onError_def video_onEnded_def
        video_onError_def toast_def fetch_def Let_def
        split: option.splits sum.splits if_splits page.splits\<close>)

lemma run_delete_has_data: "delete_has_data s \<Longrightarrow> delete_has_data (run p es s)"
proof (induction es arbitrary: s)
  case Nil
  then show ?case by simp
next
  case (Cons e es)
  show ?case
  proof (cases "handle p e s")
    case (Inl err)
    with Cons show ?thesis by simp
  next
    case (Inr s')
    from handle_delete_has_data [OF Cons.prems Inr] have "delete_has_data s'" .
    with Cons.IH Inr show ?thesis by simp
  qed
qed

lemma mounted_delete_has_data:
  "deletePending (run p es (mount p)) \<Longrightarrow> uploadedData (run p es (mount p)) \<noteq> None"
proof -
  have "delete_has_data (run p es (mount p))"
    by (rule run_delete_has_data) (simp add: delete_has_data_def mount_def)
  then show "deletePending (run p es (mount p)) \<Longrightarrow> uploadedData (run p es (mount p)) \<noteq> None"
    by (simp add: delete_has_data_def)
qed

subsection \<open>Playing\<close>

text \<open>
  C1. With the media elements attached, \<open>handlePlay\<close> (audio) and \<open>handlePlayVideo\<close>
  (video) are the toggle of the two-state machine: on the id that is marked as playing,
  the element is paused and the marker is emptied; on any other id, with the marker empty
  or on a different id, the element gets the requested URL as its source and plays, and
  the marker is the id. The \<^verbatim>\<open>ended\<close> and \<^verbatim>\<open>error\<close> events of an element empty its marker,
  whatever it was. The handlers are the same text on both pages.
\<close>

theorem playback_toggle:
  assumes "audioRef s = Some a" and "videoRef s = Some v"
  shows "(playingAudio s = Some i \<longrightarrow>
            playingAudio (handlePlay url i s) = None
            \<and> audioRef (handlePlay url i s) = Some (a\<lparr>paused := True\<rparr>))
       \<and> (playingAudio s \<noteq> Some i \<longrightarrow>
            playingAudio (handlePlay url i s) = Some i
            \<and> audioRef (handlePlay url i s) = Some \<lparr>src = url, paused = False\<rparr>)
       \<and> (playingVideo s = Some i \<longrightarrow>
            playingVideo (handlePlayVideo url i s) = None
            \<and> videoRef (handlePlayVideo url i s) = Some (v\<lparr>paused := True\<rparr>))
       \<and> (playingVideo s \<noteq> Some i \<longrightarrow>
            playingVideo (handlePlayVideo url i s) = Some i
            \<and> videoRef (handlePlayVideo url i s) = Some \<lparr>src = url, paused = False\<rparr>)
       \<and> playingAudio (audio_onEnded s) = None \<and> playingAudio (audio_onError s) = None
       \<and> playingVideo (video_onEnded s) = None \<and> playingVideo (video_onError s) = None"
  using assms
  by (simp add: handlePlay_def handlePlayVideo_def play_def pause_def audio_onEnded_def
      audio_onError_def video_onEnded_def video_onError_def)

lemma both_playing_fields:
  "audioRef both_playing = Some \<lparr>src = js ''/uploads/1700000000-zeybek.mp3'', paused = False\<rparr>
   \<and> videoRef both_playing = Some \<lparr>src = js ''/videos/marches/onuncu_yil.mp4'', paused = False\<rparr>
   \<and> playingAudio both_playing = Some (js ''42'')
   \<and> playingVideo both_playing = Some (js ''1'')"
  by (simp add: both_playing_def)

theorem playback_toggle_witness:
  "playingAudio (handlePlay (js ''/uploads/a.mp3'') (js ''7'') (mount Music)) = Some (js ''7'')
   \<and> audioRef (handlePlay (js ''/uploads/a.mp3'') (js ''7'') (mount Music)) =
       Some \<lparr>src = js ''/uploads/a.mp3'', paused = False\<rparr>
   \<and> playingVideo (handlePlayVideo (js ''/videos/music/b.mp4'') (js ''8'') (mount Music)) =
       Some (js ''8'')
   \<and> videoRef (handlePlayVideo (js ''/videos/music/b.mp4'') (js ''8'') (mount Music)) =
       Some \<lparr>src = js ''/videos/music/b.mp4'', paused = False\<rparr>
   \<and> playingAudio (handlePlay (js ''/uploads/1700000000-zeybek.mp3'') (js ''42'') both_playing)
       = None
   \<and> audioRef (handlePlay (js ''/uploads/1700000000-zeybek.mp3'') (js ''42'') both_playing) =
       Some \<lparr>src = js ''/uploads/1700000000-zeybek.mp3'', paused = True\<rparr>
   \<and> playingVideo (handlePlayVideo (js ''/videos/marches/onuncu_yil.mp4'') (js ''1'')
                     both_playing) = None
   \<and> videoRef (handlePlayVideo (js ''/videos/marches/onuncu_yil.mp4'') (js ''1'')
                 both_playing) =
       Some \<lparr>src = js ''/videos/marches/onuncu_yil.mp4'', paused = True\<rparr>
   \<and> playingAudio (handlePlay (js ''/uploads/a.mp3'') (js ''7'') both_playing) = Some (js ''7'')
   \<and> audioRef (handlePlay (js ''/uploads/a.mp3'') (js ''7'') both_playing) =
       Some \<lparr>src = js ''/uploads/a.mp3'', paused = False\<rparr>
   \<and> playingAudio (audio_onEnded both_playing) = None
   \<and> playingVideo (video_onError both_playing) = None"
proof -
  have m: "audioRef (mount Music) = Some \<lparr>src = [], paused = True\<rparr>"
    "videoRef (mount Music) = Some \<lparr>src = [], paused = True\<rparr>"
    "playingAudio (mount Music) = None" "playingVideo (mount Music) = None"
    by (simp_all add: mount_def)
  have b: "audioRef both_playing =
             Some \<lparr>src = js ''/uploads/1700000000-zeybek.mp3'', paused = False\<rparr>"
    "videoRef both_playing = Some \<lparr>src = js ''/videos/marches/onuncu_yil.mp4'', paused = False\<rparr>"
    using both_playing_fields by simp_all
  have p: "playingAudio both_playing = Some (js ''42'')"
    "playingVideo both_playing = Some (js ''1'')"
    using both_playing_fields by simp_all
  have d: "js ''42'' \<noteq> js ''7''" by (simp add: js_def)
  from playback_toggle [OF m(1) m(2), of "js ''7''" "js ''/uploads/a.mp3''"] m
  have 1: "playingAudio (handlePlay (js ''/uploads/a.mp3'') (js ''7'') (mount Music)) =
             Some (js ''7'')
           \<and> audioRef (handlePlay (js ''/uploads/a.mp3'') (js ''7'') (mount Music)) =
               Some \<lparr>src = js ''/uploads/a.mp3'', paused = False\<rparr>"
    by simp
  from playback_toggle [OF m(1) m(2), of "js ''8''" "js ''/videos/music/b.mp4''"] m
  have 2: "playingVideo (handlePlayVideo (js ''/videos/music/b.mp4'') (js ''8'') (mount Music)) =
             Some (js ''8'')
           \<and> videoRef (handlePlayVideo (js ''/videos/music/b.mp4'') (js ''8'') (mount Music)) =
               Some \<lparr>src = js ''/videos/music/b.mp4'', paused = False\<rparr>"
    by simp
  from playback_toggle [OF b, of "js ''42''" "js ''/uploads/1700000000-zeybek.mp3''"] p
  have 3: "playingAudio (handlePlay (js ''/uploads/1700000000-zeybek.mp3'') (js ''42'')
                          both_playing) = None
           \<and> audioRef (handlePlay (js ''/uploads/1700000000-zeybek.mp3'') (js ''42'')
                        both_playing) =
               Some \<lparr>src = js ''/uploads/1700000000-zeybek.mp3'', paused = True\<rparr>"
    by simp
  from playback_toggle [OF b, of "js ''1''" "js ''/videos/marches/onuncu_yil.mp4''"] p
  have 4: "playingVideo (handlePlayVideo (js ''/videos/marches/onuncu_yil.mp4'') (js ''1'')
                          both_playing) = None
           \<and> videoRef (handlePlayVideo (js ''/videos/marches/onuncu_yil.mp4'') (js ''1'')
                        both_playing) =
               Some \<lparr>src = js ''/videos/marches/onuncu_yil.mp4'', paused = True\<rparr>"
    by simp
  from playback_toggle [OF b, of "js ''7''" "js ''/uploads/a.mp3''"] p d
  have 5: "playingAudio (handlePlay (js ''/uploads/a.mp3'') (js ''7'') both_playing) =
             Some (js ''7'')
           \<and> audioRef (handlePlay (js ''/uploads/a.mp3'') (js ''7'') both_playing) =
               Some \<lparr>src = js ''/uploads/a.mp3'', paused = False\<rparr>
           \<and> playingAudio (audio_onEnded both_playing) = None
           \<and> playingVideo (video_onError both_playing) = None"
    by simp
  from 1 2 3 4 5 show ?thesis by blast
qed

text \<open>The play button of an uploaded row is the audio toggle on \<^verbatim>\<open>/uploads/{filename}\<close>.\<close>

lemma uploaded_onClickPlay_toggle:
  "uploaded_onClickPlay f s = handlePlay (js ''/uploads/'' @ mf_filename f) (mf_id f) s"
  by (simp add: uploaded_onClickPlay_def)

subsection \<open>Favorites\<close>

text \<open>
  C9, as the code has it. The play button of a favorite whose filename ends with
  \<^verbatim>\<open>.mp4\<close> is the video toggle on the URL made of the page's directory
  (\<^verbatim>\<open>/videos/marches/\<close> or \<^verbatim>\<open>/videos/music/\<close>) and the filename: unless this favorite is
  the one marked as playing, the video element gets that URL as its source and plays, and
  the marker is the favorite's id; when it is the one marked as playing, the click pauses
  the video and empties the marker. For a filename that does not end with \<^verbatim>\<open>.mp4\<close> the
  information toast is shown and nothing else changes.
\<close>

theorem favorite_click_routes:
  assumes "fav_filename fav = Some fn"
  shows "(endsWith fn (js ''.mp4'') \<longrightarrow>
            favorite_onClick p fav s = Inr (handlePlayVideo (videos_dir p @ fn) (fav_id fav) s))
       \<and> (endsWith fn (js ''.mp4'') \<and> playingVideo s \<noteq> Some (fav_id fav)
          \<and> videoRef s = Some v \<longrightarrow>
            favorite_onClick p fav s =
              Inr (s\<lparr>videoRef := Some \<lparr>src = videos_dir p @ fn, paused = False\<rparr>,
                     playingVideo := Some (fav_id fav)\<rparr>)
            \<and> starts_video (videos_dir p @ fn) (favorite_onClick p fav s))
       \<and> (endsWith fn (js ''.mp4'') \<and> playingVideo s = Some (fav_id fav)
          \<and> videoRef s = Some v \<longrightarrow>
            favorite_onClick p fav s =
              Inr (s\<lparr>videoRef := Some (v\<lparr>paused := True\<rparr>), playingVideo := None\<rparr>))
       \<and> (\<not> endsWith fn (js ''.mp4'') \<longrightarrow>
            favorite_onClick p fav s =
              Inr (s\<lparr>toasts := toasts s @ [\<lparr>t_title = Bilgi, t_description = Needs_real_file fn,
                                             t_variant = Default_variant\<rparr>]\<rparr>))"
proof -
  have "favorite_onClick p fav s = handlePlayFavorite p (Some fn) (fav_id fav) s"
    using assms by (cases p) (simp_all add: favorite_onClick_def)
  then show ?thesis
    by (simp add: handlePlayFavorite_def handlePlayVideo_def play_def pause_def toast_def
        starts_video_def)
qed

theorem favorite_click_routes_witness:
  "starts_video (js ''/videos/marches/onuncu_yil.mp4'')
     (favorite_onClick Marches onuncu_yil (mount Marches))
   \<and> starts_video (js ''/videos/music/onuncu_yil.mp4'')
       (favorite_onClick Music onuncu_yil (mount Music))
   \<and> favorite_onClick Marches onuncu_yil onuncu_yil_playing =
       Inr (onuncu_yil_playing
              \<lparr>videoRef := Some \<lparr>src = js ''/videos/marches/onuncu_yil.mp4'', paused = True\<rparr>,
               playingVideo := None\<rparr>)
   \<and> favorite_onClick Music sari_zeybek (mount Music) =
       Inr ((mount Music)
              \<lparr>toasts := [\<lparr>t_title = Bilgi,
                            t_description = Needs_real_file (js ''sari_zeybek.mp3''),
                            t_variant = Default_variant\<rparr>]\<rparr>)"
proof -
  have o: "fav_filename onuncu_yil = Some (js ''onuncu_yil.mp4'')" "fav_id onuncu_yil = js ''1''"
    by (simp_all add: onuncu_yil_def)
  have z: "fav_filename sari_zeybek = Some (js ''sari_zeybek.mp3'')"
    by (simp add: sari_zeybek_def)
  have e: "endsWith (js ''onuncu_yil.mp4'') (js ''.mp4'')"
    "\<not> endsWith (js ''sari_zeybek.mp3'') (js ''.mp4'')"
    by (simp_all add: endsWith_def js_def)
  have m: "playingVideo (mount p) = None" "videoRef (mount p) = Some \<lparr>src = [], paused = True\<rparr>"
    "toasts (mount p) = []" for p
    by (simp_all add: mount_def)
  have y: "playingVideo onuncu_yil_playing = Some (js ''1'')"
    "videoRef onuncu_yil_playing =
       Some \<lparr>src = js ''/videos/marches/onuncu_yil.mp4'', paused = False\<rparr>"
    by (simp_all add: onuncu_yil_playing_def)
  have c1: "endsWith (js ''onuncu_yil.mp4'') (js ''.mp4'')
            \<and> playingVideo (mount p) \<noteq> Some (fav_id onuncu_yil)
            \<and> videoRef (mount p) = Some \<lparr>src = [], paused = True\<rparr>" for p
    using e m o by simp
  from favorite_click_routes [OF o(1), of Marches "mount Marches" "\<lparr>src = [], paused = True\<rparr>"] c1
  have "starts_video (videos_dir Marches @ js ''onuncu_yil.mp4'')
          (favorite_onClick Marches onuncu_yil (mount Marches))"
    by blast
  then have 1: "starts_video (js ''/videos/marches/onuncu_yil.mp4'')
                  (favorite_onClick Marches onuncu_yil (mount Marches))"
    by (simp add: videos_dir_def js_def)
  from favorite_click_routes [OF o(1), of Music "mount Music" "\<lparr>src = [], paused = True\<rparr>"] c1
  have "starts_video (videos_dir Music @ js ''onuncu_yil.mp4'')
          (favorite_onClick Music onuncu_yil (mount Music))"
    by blast
  then have 2: "starts_video (js ''/videos/music/onuncu_yil.mp4'')
                  (favorite_onClick Music onuncu_yil (mount Music))"
    by (simp add: videos_dir_def js_def)
  have c3: "endsWith (js ''onuncu_yil.mp4'') (js ''.mp4'')
            \<and> playingVideo onuncu_yil_playing = Some (fav_id onuncu_yil)
            \<and> videoRef onuncu_yil_playing =
                Some \<lparr>src = js ''/videos/marches/onuncu_yil.mp4'', paused = False\<rparr>"
    using e y o by simp
  from favorite_click_routes [OF o(1), of Marches onuncu_yil_playing
      "\<lparr>src = js ''/videos/marches/onuncu_yil.mp4'', paused = False\<rparr>"] c3
  have "favorite_onClick Marches onuncu_yil onuncu_yil_playing =
          Inr (onuncu_yil_playing
                 \<lparr>videoRef := Some (\<lparr>src = js ''/videos/marches/onuncu_yil.mp4'',
                                       paused = False\<rparr>\<lparr>paused := True\<rparr>),
                  playingVideo := None\<rparr>)"
    by blast
  then have 3: "favorite_onClick Marches onuncu_yil onuncu_yil_playing =
                  Inr (onuncu_yil_playing
                         \<lparr>videoRef := Some \<lparr>src = js ''/videos/marches/onuncu_yil.mp4'',
                                            paused = True\<rparr>,
                          playingVideo := None\<rparr>)"
    by simp
  from favorite_click_routes [OF z, of Music "mount Music"] e(2)
  have "favorite_onClick Music sari_zeybek (mount Music) =
          Inr ((mount Music)
                 \<lparr>toasts := toasts (mount Music)
                    @ [\<lparr>t_title = Bilgi,
                        t_description = Needs_real_file (js ''sari_zeybek.mp3''),
                        t_variant = Default_variant\<rparr>]\<rparr>)"
    by blast
  then have 4: "favorite_onClick Music sari_zeybek (mount Music) =
                  Inr ((mount Music)
                         \<lparr>toasts := [\<lparr>t_title = Bilgi,
                                       t_description = Needs_real_file (js ''sari_zeybek.mp3''),
                                       t_variant = Default_variant\<rparr>]\<rparr>)"
    using m(3) [of Music] by simp
  from 1 2 3 4 show ?thesis by blast
qed

text \<open>
  C9, as the claim has it, fails on a favorite that is playing. From the mounted Marches
  page, a click on the favorite \<^verbatim>\<open>onuncu_yil.mp4\<close> starts it; a second click on the same
  play control pauses the video and empties the marker instead of starting playback.
\<close>

theorem favorite_click_pauses_counterexample:
  "fav_filename onuncu_yil = Some (js ''onuncu_yil.mp4'')
   \<and> endsWith (js ''onuncu_yil.mp4'') (js ''.mp4'')
   \<and> favorite_onClick Marches onuncu_yil (mount Marches) = Inr onuncu_yil_playing
   \<and> favorite_onClick Marches onuncu_yil onuncu_yil_playing =
       Inr (onuncu_yil_playing
              \<lparr>videoRef := Some \<lparr>src = js ''/videos/marches/onuncu_yil.mp4'', paused = True\<rparr>,
               playingVideo := None\<rparr>)
   \<and> \<not> starts_video (js ''/videos/marches/onuncu_yil.mp4'')
         (favorite_onClick Marches onuncu_yil onuncu_yil_playing)"
  by (simp add: onuncu_yil_def onuncu_yil_playing_def endsWith_def favorite_onClick_def
      handlePlayFavorite_def handlePlayVideo_def videos_dir_def play_def pause_def mount_def
      starts_video_def js_def)

text \<open>
  The same two clicks as events of the page, once the list of favorites has arrived: the
  video is paused and the marker is empty.
\<close>

lemma favorite_clicked_twice:
  "videoRef (run Marches [Favorites_settled [onuncu_yil, harbiye],
                          Click_favorite onuncu_yil, Click_favorite onuncu_yil]
               (mount Marches)) =
     Some \<lparr>src = js ''/videos/marches/onuncu_yil.mp4'', paused = True\<rparr>
   \<and> playingVideo (run Marches [Favorites_settled [onuncu_yil, harbiye],
                                Click_favorite onuncu_yil, Click_favorite onuncu_yil]
                     (mount Marches)) = None"
  by (simp add: handle_def favoritesQuery_settle_def favoriteMarches_def onuncu_yil_def
      harbiye_def endsWith_def favorite_onClick_def handlePlayFavorite_def handlePlayVideo_def
      videos_dir_def play_def pause_def mount_def js_def)

text \<open>
  A favorite without a filename. The Music page passes the empty string, and the
  information toast is shown. The Marches page passes \<^verbatim>\<open>undefined\<close>, and the handler
  throws before it shows anything.
\<close>

lemma favorite_without_filename_music:
  assumes "fav_filename fav = None"
  shows "favorite_onClick Music fav s =
           Inr (s\<lparr>toasts := toasts s @ [\<lparr>t_title = Bilgi, t_description = Needs_real_file [],
                                          t_variant = Default_variant\<rparr>]\<rparr>)"
  using assms
  by (simp add: favorite_onClick_def handlePlayFavorite_def endsWith_def toast_def js_def)

lemma favorite_without_filename_marches:
  assumes "fav_filename fav = None"
  shows "favorite_onClick Marches fav s = Inl TypeError"
  using assms by (simp add: favorite_onClick_def handlePlayFavorite_def)

text \<open>
  C2. On the Marches page, the click on the play control of the favorite \<open>harbiye\<close>,
  which has no filename, ends in a \<^verbatim>\<open>TypeError\<close>: no information toast is shown. The same
  favorite on the Music page gets the information toast.
\<close>

theorem favorite_click_undefined_filename:
  "fav_filename harbiye = None
   \<and> favorite_onClick Marches harbiye (mount Marches) = Inl TypeError
   \<and> favorite_onClick Music harbiye (mount Music) =
       Inr ((mount Music)\<lparr>toasts := [\<lparr>t_title = Bilgi, t_description = Needs_real_file [],
                                       t_variant = Default_variant\<rparr>]\<rparr>)"
  by (simp add: harbiye_def favorite_onClick_def handlePlayFavorite_def endsWith_def toast_def
      mount_def js_def)


end
